theory Spec2Isabelle
  imports Complex_Main "HOL-Library.Multiset"
begin

section \<open>Data model of the deduplication pipeline\<close>

text \<open>
  The development embeds \<^verbatim>\<open>src/src/splink_pipeline.py\<close>.  A pandas table is held by what
  the code reads from it: the number of rows, the ordered column names, the dtype class of
  every column and the scalar stored at a row position and a column name.  The row index
  is the default one (positions \<open>0 .. nrows - 1\<close>, as \<^verbatim>\<open>read_csv\<close> builds it), so
  \<^verbatim>\<open>row.name\<close> and the position used by \<^verbatim>\<open>df.iloc\<close> coincide.

  A scalar is a missing value (\<open>NaN\<close>), a Python string, or any other scalar (\<open>Num\<close>:
  an int, a float, a bool).  The text that Python's \<^verbatim>\<open>str\<close> prints for such a scalar, the
  similarity \<^verbatim>\<open>rapidfuzz.fuzz.ratio\<close> and the order in which \<^verbatim>\<open>groupby\<close> presents its
  keys belong to libraries outside the repository, and so does \<^verbatim>\<open>pandas.read_csv\<close> with the
  file system it reads (its second argument is \<^verbatim>\<open>nrows\<close>); they are the fields of
  \<open>externals\<close> and every result below holds for each choice of them.

  Python strings are modelled by \<open>string\<close>; \<^verbatim>\<open>lower\<close> maps the ASCII capitals and
  white space is the set of code points below 256 that \<^verbatim>\<open>str.isspace\<close> accepts.
  Python floats (ratios, averages, scores) are modelled by exact rationals.
\<close>

datatype error = ZeroDivisionError | IndexError | KeyError | FileNotFoundError | ParserError

datatype 'n cell = NaN | Str string | Num 'n

datatype dtype = ObjectD | NumericD | OtherD

record 'n dataframe =
  nrows :: nat
  columns :: "string list"
  dtype_of :: "string \<Rightarrow> dtype"
  cell_at :: "nat \<Rightarrow> string \<Rightarrow> 'n cell"

record 'n externals =
  num_str :: "'n \<Rightarrow> string"
  fuzz_ratio :: "string \<Rightarrow> string \<Rightarrow> rat"
  key_le :: "'n cell \<Rightarrow> 'n cell \<Rightarrow> bool"
  read_csv :: "string \<Rightarrow> nat option \<Rightarrow> error + 'n dataframe"

datatype tier = EXACT | HIGH | MEDIUM | LOW

record 'n match =
  record_id_l :: "'n cell"
  record_id_r :: "'n cell"
  match_score :: rat
  match_tier :: tier

subsection \<open>Python string and scalar primitives\<close>

definition isna :: "'n cell \<Rightarrow> bool" where
  "isna v = (case v of NaN \<Rightarrow> True | _ \<Rightarrow> False)"

definition py_str :: "'n externals \<Rightarrow> 'n cell \<Rightarrow> string" where
  "py_str ext v = (case v of NaN \<Rightarrow> ''nan'' | Str s \<Rightarrow> s | Num x \<Rightarrow> num_str ext x)"

definition lower_char :: "char \<Rightarrow> char" where
  "lower_char c =
     (case map_of (zip ''ABCDEFGHIJKLMNOPQRSTUVWXYZ'' ''abcdefghijklmnopqrstuvwxyz'') c of
        None \<Rightarrow> c
      | Some d \<Rightarrow> d)"

definition lower :: "string \<Rightarrow> string" where
  "lower s = map lower_char s"

definition is_space :: "char \<Rightarrow> bool" where
  "is_space c =
     (let n = (of_char c :: nat)
      in (9 \<le> n \<and> n \<le> 13) \<or> (28 \<le> n \<and> n \<le> 32) \<or> n = 133 \<or> n = 160)"

definition strip :: "string \<Rightarrow> string" where
  "strip s = rev (dropWhile is_space (rev (dropWhile is_space s)))"

text \<open>\<^verbatim>\<open>s.split()\<close>: the maximal runs of characters that are not white space, in order.
  The first argument is the word being read.\<close>

fun split_from :: "string \<Rightarrow> string \<Rightarrow> string list" where
  "split_from cur [] = (if cur = [] then [] else [cur])"
| "split_from cur (c # cs) =
     (if is_space c then (if cur = [] then split_from [] cs else cur # split_from [] cs)
      else split_from (cur @ [c]) cs)"

definition split :: "string \<Rightarrow> string list" where
  "split s = split_from [] s"

text \<open>\<^verbatim>\<open>x in s\<close> for strings: \<open>x\<close> occurs in \<open>s\<close> as a contiguous piece.\<close>

fun contains :: "string \<Rightarrow> string \<Rightarrow> bool" where
  "contains [] x = (x = [])"
| "contains (c # cs) x = (take (length x) (c # cs) = x \<or> contains cs x)"

subsection \<open>Blocking: \<^verbatim>\<open>fuzzy_match_strategy\<close>, lines 168 to 181\<close>

text \<open>The key of one row, from the scalar in the blocking column.\<close>

definition block_key :: "'n externals \<Rightarrow> 'n cell \<Rightarrow> string" where
  "block_key ext v =
     (let key = lower (py_str ext v)
      in if isna v \<or> length key < 3 then ''unknown''
         else (case split key of
                 [] \<Rightarrow> take 3 key
               | w # _ \<Rightarrow> take 3 w))"

text \<open>The dictionary \<^verbatim>\<open>blocks\<close>, in insertion order: a new key is added at the end with
  the one row, a known key gets the row appended to its list.\<close>

fun blocks_add :: "(string \<times> nat list) list \<Rightarrow> string \<Rightarrow> nat \<Rightarrow> (string \<times> nat list) list" where
  "blocks_add [] k i = [(k, [i])]"
| "blocks_add ((k', js) # bs) k i =
     (if k' = k then (k', js @ [i]) # bs else (k', js) # blocks_add bs k i)"

definition build_blocks :: "'n externals \<Rightarrow> 'n dataframe \<Rightarrow> string \<Rightarrow> (string \<times> nat list) list" where
  "build_blocks ext df block_col =
     foldl (\<lambda>blocks i. blocks_add blocks (block_key ext (cell_at df i block_col)) i) [] [0..<nrows df]"

subsection \<open>Scoring: \<^verbatim>\<open>calculate_fuzzy_score\<close>\<close>

text \<open>The loop over \<^verbatim>\<open>cols\<close> carries \<^verbatim>\<open>total_score\<close> and \<^verbatim>\<open>valid_cols\<close>.
  \<^verbatim>\<open>df.iloc[idx]\<close> raises IndexError for a position that is not a row.\<close>

definition norm_val :: "'n externals \<Rightarrow> 'n cell \<Rightarrow> string" where
  "norm_val ext v = strip (lower (py_str ext v))"

fun score_loop ::
  "'n externals \<Rightarrow> 'n dataframe \<Rightarrow> nat \<Rightarrow> nat \<Rightarrow> string list \<Rightarrow> rat \<times> nat \<Rightarrow> error + rat \<times> nat" where
  "score_loop ext df idx1 idx2 [] acc = Inr acc"
| "score_loop ext df idx1 idx2 (col # cols) (total_score, valid_cols) =
     (if col \<in> set (columns df) then
        (if nrows df \<le> idx1 \<or> nrows df \<le> idx2 then Inl IndexError
         else (let val1 = norm_val ext (cell_at df idx1 col);
                   val2 = norm_val ext (cell_at df idx2 col)
               in if val1 \<noteq> [] \<and> val2 \<noteq> [] \<and> val1 \<noteq> val2
                  then score_loop ext df idx1 idx2 cols
                         (total_score + fuzz_ratio ext val1 val2, valid_cols + 1)
                  else score_loop ext df idx1 idx2 cols (total_score, valid_cols)))
      else score_loop ext df idx1 idx2 cols (total_score, valid_cols))"

definition calculate_fuzzy_score ::
  "'n externals \<Rightarrow> 'n dataframe \<Rightarrow> nat \<Rightarrow> nat \<Rightarrow> string list \<Rightarrow> error + rat" where
  "calculate_fuzzy_score ext df idx1 idx2 cols =
     (case score_loop ext df idx1 idx2 cols (0, 0) of
        Inl e \<Rightarrow> Inl e
      | Inr (total_score, valid_cols) \<Rightarrow>
          Inr (if valid_cols > 0 then total_score / of_nat valid_cols else 0))"

subsection \<open>Matching inside blocks: \<^verbatim>\<open>fuzzy_match_strategy\<close>\<close>

text \<open>The two nested loops \<^verbatim>\<open>for i in range(len(xs)): for j in range(i+1, len(xs))\<close> visit
  the pairs of \<open>all_pairs xs\<close> in this order.\<close>

fun all_pairs :: "'a list \<Rightarrow> ('a \<times> 'a) list" where
  "all_pairs [] = []"
| "all_pairs (x # xs) = map (Pair x) xs @ all_pairs xs"

text \<open>\<^verbatim>\<open>df.iloc[idx]['record_id']\<close>.\<close>

definition record_id_at :: "'n dataframe \<Rightarrow> nat \<Rightarrow> error + 'n cell" where
  "record_id_at df idx =
     (if nrows df \<le> idx then Inl IndexError
      else if ''record_id'' \<notin> set (columns df) then Inl KeyError
      else Inr (cell_at df idx ''record_id''))"

fun pairs_loop ::
  "'n externals \<Rightarrow> 'n dataframe \<Rightarrow> string list \<Rightarrow> rat \<Rightarrow> tier \<Rightarrow> (nat \<times> nat) list
     \<Rightarrow> 'n match list \<Rightarrow> error + 'n match list" where
  "pairs_loop ext df cols threshold tier [] matches = Inr matches"
| "pairs_loop ext df cols threshold tier ((idx1, idx2) # ps) matches =
     (case calculate_fuzzy_score ext df idx1 idx2 cols of
        Inl e \<Rightarrow> Inl e
      | Inr score \<Rightarrow>
          if score \<ge> threshold then
            (case record_id_at df idx1 of
               Inl e \<Rightarrow> Inl e
             | Inr l \<Rightarrow>
                 (case record_id_at df idx2 of
                    Inl e \<Rightarrow> Inl e
                  | Inr r \<Rightarrow>
                      pairs_loop ext df cols threshold tier ps
                        (matches @ [\<lparr>record_id_l = l, record_id_r = r,
                                     match_score = score / 100, match_tier = tier\<rparr>])))
          else pairs_loop ext df cols threshold tier ps matches)"

fun blocks_loop ::
  "'n externals \<Rightarrow> 'n dataframe \<Rightarrow> string list \<Rightarrow> rat \<Rightarrow> tier \<Rightarrow> nat
     \<Rightarrow> (string \<times> nat list) list \<Rightarrow> 'n match list \<Rightarrow> error + 'n match list" where
  "blocks_loop ext df cols threshold tier max_block_size [] matches = Inr matches"
| "blocks_loop ext df cols threshold tier max_block_size ((key, indices) # bs) matches =
     (if length indices < 2 \<or> length indices > max_block_size
      then blocks_loop ext df cols threshold tier max_block_size bs matches
      else (case pairs_loop ext df cols threshold tier (all_pairs indices) matches of
              Inl e \<Rightarrow> Inl e
            | Inr matches' \<Rightarrow> blocks_loop ext df cols threshold tier max_block_size bs matches'))"

definition fuzzy_match_strategy ::
  "'n externals \<Rightarrow> 'n dataframe \<Rightarrow> string list \<Rightarrow> rat \<Rightarrow> tier \<Rightarrow> nat \<Rightarrow> error + 'n match list" where
  "fuzzy_match_strategy ext df cols threshold tier max_block_size =
     (case cols of
        [] \<Rightarrow> Inr []
      | block_col # _ \<Rightarrow>
          if block_col \<notin> set (columns df) then Inr []
          else blocks_loop ext df cols threshold tier max_block_size
                 (build_blocks ext df block_col) [])"

subsection \<open>Exact matching: \<^verbatim>\<open>find_exact_matches\<close>\<close>

definition rows_with :: "'n dataframe \<Rightarrow> string \<Rightarrow> 'n cell \<Rightarrow> nat list" where
  "rows_with df col v = filter (\<lambda>i. cell_at df i col = v) [0..<nrows df]"

text \<open>\<^verbatim>\<open>df[df.duplicated(subset=[col], keep=False)]\<close>: the rows whose scalar in \<open>col\<close>
  occurs in at least two rows (missing values count as equal to each other here).\<close>

definition dup_rows :: "'n dataframe \<Rightarrow> string \<Rightarrow> nat list" where
  "dup_rows df col = filter (\<lambda>i. 2 \<le> length (rows_with df col (cell_at df i col))) [0..<nrows df]"

fun insert_by :: "('a \<Rightarrow> 'a \<Rightarrow> bool) \<Rightarrow> 'a \<Rightarrow> 'a list \<Rightarrow> 'a list" where
  "insert_by le x [] = [x]"
| "insert_by le x (y # ys) = (if le x y then x # y # ys else y # insert_by le x ys)"

definition sort_by :: "('a \<Rightarrow> 'a \<Rightarrow> bool) \<Rightarrow> 'a list \<Rightarrow> 'a list" where
  "sort_by le xs = foldr (insert_by le) xs []"

text \<open>\<^verbatim>\<open>dups.groupby(col)\<close>: one group for each distinct scalar that is not missing
  (\<^verbatim>\<open>groupby\<close> drops missing keys), the keys in sorted order, the rows of a group in
  table order.\<close>

definition group_keys :: "'n externals \<Rightarrow> 'n dataframe \<Rightarrow> string \<Rightarrow> nat list \<Rightarrow> 'n cell list" where
  "group_keys ext df col rows =
     sort_by (key_le ext)
       (remdups (filter (\<lambda>v. \<not> isna v) (map (\<lambda>i. cell_at df i col) rows)))"

definition group_rows :: "'n dataframe \<Rightarrow> string \<Rightarrow> nat list \<Rightarrow> 'n cell \<Rightarrow> nat list" where
  "group_rows df col rows key = filter (\<lambda>i. cell_at df i col = key) rows"

definition exact_match :: "'n cell \<times> 'n cell \<Rightarrow> 'n match" where
  "exact_match p =
     \<lparr>record_id_l = fst p, record_id_r = snd p, match_score = 1, match_tier = EXACT\<rparr>"

fun groups_loop ::
  "'n dataframe \<Rightarrow> string \<Rightarrow> nat list \<Rightarrow> 'n cell list \<Rightarrow> 'n match list \<Rightarrow> error + 'n match list" where
  "groups_loop df col dups [] matches = Inr matches"
| "groups_loop df col dups (key # keys) matches =
     (if ''record_id'' \<notin> set (columns df) then Inl KeyError
      else (let rec_ids = map (\<lambda>i. cell_at df i ''record_id'') (group_rows df col dups key)
            in groups_loop df col dups keys (matches @ map exact_match (all_pairs rec_ids))))"

fun exact_loop ::
  "'n externals \<Rightarrow> 'n dataframe \<Rightarrow> string list \<Rightarrow> 'n match list \<Rightarrow> error + 'n match list" where
  "exact_loop ext df [] matches = Inr matches"
| "exact_loop ext df (col # cols) matches =
     (if col \<in> set (columns df) then
        (let dups = dup_rows df col
         in case groups_loop df col dups (group_keys ext df col dups) matches of
              Inl e \<Rightarrow> Inl e
            | Inr matches' \<Rightarrow> exact_loop ext df cols matches')
      else exact_loop ext df cols matches)"

definition find_exact_matches ::
  "'n externals \<Rightarrow> 'n dataframe \<Rightarrow> string list \<Rightarrow> error + 'n match list" where
  "find_exact_matches ext df exact_cols = exact_loop ext df exact_cols []"

subsection \<open>Column classification: \<^verbatim>\<open>classify_columns\<close>\<close>

text \<open>The dictionary \<^verbatim>\<open>col_types\<close>.  While the loop runs, \<^verbatim>\<open>'strings'\<close> holds pairs of a
  column and its uniqueness ratio; the function returns it as a list of columns.\<close>

record 's col_types =
  exact :: "string list"
  names :: "string list"
  text_cols :: "string list"
  strings :: "'s list"
  numbers :: "string list"

definition exact_keywords :: "string list" where
  "exact_keywords = [''id'', ''code'', ''sku'', ''order'', ''claim'', ''invoice'', ''transaction'']"

definition name_keywords :: "string list" where
  "name_keywords =
     [''name'', ''customer'', ''client'', ''employee'', ''product'', ''item'', ''guest'']"

text \<open>\<^verbatim>\<open>df[col].dropna().astype(str).str.lower()\<close>.\<close>

definition sample_of :: "'n externals \<Rightarrow> 'n dataframe \<Rightarrow> string \<Rightarrow> string list" where
  "sample_of ext df col =
     map (\<lambda>v. lower (py_str ext v))
       (filter (\<lambda>v. \<not> isna v) (map (\<lambda>i. cell_at df i col) [0..<nrows df]))"

text \<open>The body of the loop for one column.  \<^verbatim>\<open>sample.nunique() / len(sample)\<close> divides two
  Python ints and raises ZeroDivisionError when the sample is empty.\<close>

definition classify_step ::
  "'n externals \<Rightarrow> 'n dataframe \<Rightarrow> (string \<times> rat) col_types \<Rightarrow> string
     \<Rightarrow> error + (string \<times> rat) col_types" where
  "classify_step ext df ct col =
     (if col = ''record_id'' then Inr ct
      else
        (let sample = sample_of ext df col
         in if length sample = 0 then Inl ZeroDivisionError
            else
              (let unique_ratio = (of_nat (length (remdups sample)) :: rat) / of_nat (length sample);
                   avg_len = (of_nat (sum_list (map length sample)) :: rat) / of_nat (length sample);
                   col_lower = lower col
               in if unique_ratio > 8 / 10 \<or> list_ex (contains col_lower) exact_keywords
                       \<or> dtype_of df col = NumericD
                  then Inr (ct\<lparr>exact := exact ct @ [col]\<rparr>)
                  else if 1 / 10 < unique_ratio \<and> unique_ratio < 8 / 10
                            \<and> list_ex (contains col_lower) name_keywords
                  then Inr (ct\<lparr>names := names ct @ [col]\<rparr>)
                  else if avg_len > 10 \<and> unique_ratio < 5 / 10
                  then Inr (ct\<lparr>text_cols := text_cols ct @ [col]\<rparr>)
                  else if dtype_of df col = ObjectD
                  then Inr (ct\<lparr>strings := strings ct @ [(col, unique_ratio)]\<rparr>)
                  else if dtype_of df col = NumericD
                  then Inr (ct\<lparr>numbers := numbers ct @ [col]\<rparr>)
                  else Inr ct)))"

fun classify_loop ::
  "'n externals \<Rightarrow> 'n dataframe \<Rightarrow> string list \<Rightarrow> (string \<times> rat) col_types
     \<Rightarrow> error + (string \<times> rat) col_types" where
  "classify_loop ext df [] ct = Inr ct"
| "classify_loop ext df (col # cols) ct =
     (case classify_step ext df ct col of
        Inl e \<Rightarrow> Inl e
      | Inr ct' \<Rightarrow> classify_loop ext df cols ct')"

text \<open>\<^verbatim>\<open>sorted(..., key=lambda x: x[1], reverse=True)\<close> is stable: columns of equal ratio
  keep their order.\<close>

definition classify_columns :: "'n externals \<Rightarrow> 'n dataframe \<Rightarrow> error + string col_types" where
  "classify_columns ext df =
     (case classify_loop ext df (columns df)
             \<lparr>exact = [], names = [], text_cols = [], strings = [], numbers = []\<rparr> of
        Inl e \<Rightarrow> Inl e
      | Inr ct \<Rightarrow>
          Inr \<lparr>exact = exact ct, names = names ct, text_cols = text_cols ct,
               strings = map fst (sort_key (\<lambda>x. - snd x) (strings ct)),
               numbers = numbers ct\<rparr>)"

subsection \<open>The aggregator: \<^verbatim>\<open>universal_deduplication\<close>\<close>

text \<open>\<^verbatim>\<open>f"REC_{i:06d}"\<close>: the decimal digits of \<open>i\<close>, padded with zeros on the left to
  six characters.\<close>

definition digit_char :: "nat \<Rightarrow> char" where
  "digit_char d = ''0123456789'' ! (d mod 10)"

fun decimal :: "nat \<Rightarrow> string" where
  "decimal n = (if n < 10 then [digit_char n] else decimal (n div 10) @ [digit_char (n mod 10)])"

definition rec_id :: "nat \<Rightarrow> string" where
  "rec_id i = ''REC_'' @ replicate (6 - length (decimal i)) (CHR ''0'') @ decimal i"

definition add_record_ids :: "'n dataframe \<Rightarrow> 'n dataframe" where
  "add_record_ids df =
     (if ''record_id'' \<notin> set (columns df)
      then df\<lparr>columns := columns df @ [''record_id''],
              dtype_of := (dtype_of df)(''record_id'' := ObjectD),
              cell_at := (\<lambda>i c. if c = ''record_id'' then Str (rec_id i) else cell_at df i c)\<rparr>
      else df)"

text \<open>\<^verbatim>\<open>drop_duplicates(subset=['record_id_l', 'record_id_r'])\<close> keeps, for each pair of
  identifiers in this order, the first row that has it.\<close>

definition pair_of :: "'n match \<Rightarrow> 'n cell \<times> 'n cell" where
  "pair_of m = (record_id_l m, record_id_r m)"

fun drop_duplicates_from :: "('n cell \<times> 'n cell) list \<Rightarrow> 'n match list \<Rightarrow> 'n match list" where
  "drop_duplicates_from seen [] = []"
| "drop_duplicates_from seen (m # ms) =
     (if pair_of m \<in> set seen then drop_duplicates_from seen ms
      else m # drop_duplicates_from (pair_of m # seen) ms)"

definition drop_duplicates :: "'n match list \<Rightarrow> 'n match list" where
  "drop_duplicates ms = drop_duplicates_from [] ms"

text \<open>Lines 30 to 54: the four strategies in order, each appending to \<^verbatim>\<open>all_matches\<close>.\<close>

definition all_matches ::
  "'n externals \<Rightarrow> 'n dataframe \<Rightarrow> string col_types \<Rightarrow> error + 'n match list" where
  "all_matches ext df ct =
     (case find_exact_matches ext df (exact ct) of
        Inl e \<Rightarrow> Inl e
      | Inr exact_matches \<Rightarrow>
          (case (if names ct \<noteq> [] then fuzzy_match_strategy ext df (names ct) 95 HIGH 100
                 else Inr []) of
             Inl e \<Rightarrow> Inl e
           | Inr name_matches \<Rightarrow>
               (case (if text_cols ct \<noteq> []
                      then fuzzy_match_strategy ext df (text_cols ct) 90 MEDIUM 100
                      else Inr []) of
                  Inl e \<Rightarrow> Inl e
                | Inr text_matches \<Rightarrow>
                    (case (if strings ct \<noteq> []
                           then fuzzy_match_strategy ext df (take 2 (strings ct)) 85 LOW 100
                           else Inr []) of
                       Inl e \<Rightarrow> Inl e
                     | Inr fallback_matches \<Rightarrow>
                         Inr (exact_matches @ name_matches @ text_matches
                                @ fallback_matches)))))"

text \<open>Lines 56 to 59: the table \<^verbatim>\<open>matches_df\<close> that is written to the predictions file
  (the frame built from an empty list is empty and is left as it is).\<close>

definition matches_df ::
  "'n externals \<Rightarrow> 'n dataframe \<Rightarrow> string col_types \<Rightarrow> error + 'n match list" where
  "matches_df ext df ct =
     (case all_matches ext df ct of
        Inl e \<Rightarrow> Inl e
      | Inr ms \<Rightarrow> Inr (if ms \<noteq> [] then drop_duplicates ms else ms))"

text \<open>The summary returned to the caller.  The elapsed wall-clock time is left out; the
  empty dictionary that the fallback returns for \<^verbatim>\<open>col_types\<close> is \<open>None\<close>.\<close>

record summary =
  duplicate_pairs :: nat
  input_records :: nat
  detection_rate :: rat
  tiers :: "tier \<Rightarrow> nat"
  col_types :: "string col_types option"

text \<open>\<^verbatim>\<open>len(matches_df)*2/len(df)*100\<close> raises ZeroDivisionError on a table with no
  rows.\<close>

definition universal_deduplication :: "'n externals \<Rightarrow> 'n dataframe \<Rightarrow> error + summary" where
  "universal_deduplication ext df0 =
     (let df = add_record_ids df0
      in case classify_columns ext df of
           Inl e \<Rightarrow> Inl e
         | Inr ct \<Rightarrow>
             (case matches_df ext df ct of
                Inl e \<Rightarrow> Inl e
              | Inr ms \<Rightarrow>
                  if nrows df = 0 then Inl ZeroDivisionError
                  else Inr \<lparr>duplicate_pairs = length ms,
                            input_records = nrows df,
                            detection_rate =
                              min 100 (of_nat (length ms) * 2 / of_nat (nrows df) * 100),
                            tiers = (\<lambda>t. length (filter (\<lambda>m. match_tier m = t) ms)),
                            col_types = Some ct\<rparr>))"

subsection \<open>The driver: \<^verbatim>\<open>run_dynamic_dedup\<close>\<close>

text \<open>The handler catches every exception of the first attempt; nothing catches what the
  handler itself raises.  The identifier column that the handler assigns is not read
  again: the summary takes only the number of rows from the table.\<close>

definition run_dynamic_dedup :: "'n externals \<Rightarrow> string \<Rightarrow> error + summary" where
  "run_dynamic_dedup ext data_path =
     (case (case read_csv ext data_path None of
              Inl e \<Rightarrow> Inl e
            | Inr df \<Rightarrow> universal_deduplication ext df) of
        Inr r \<Rightarrow> Inr r
      | Inl e \<Rightarrow>
          (case read_csv ext data_path (Some 1000) of
             Inl e' \<Rightarrow> Inl e'
           | Inr df \<Rightarrow>
               Inr \<lparr>duplicate_pairs = 0,
                    input_records = nrows df,
                    detection_rate = 0,
                    tiers = (\<lambda>t. 0),
                    col_types = None\<rparr>))"

section \<open>Definitions that follow the specification's words\<close>



text \<open>The scores of the columns that contribute to the fuzzy score of two rows: a
  column of the list contributes when the table has it, both normalised values are not
  empty and they differ.  The fuzzy score is the arithmetic mean of these scores, and 0
  when there is none.\<close>

definition col_scores ::
  "'n externals \<Rightarrow> 'n dataframe \<Rightarrow> nat \<Rightarrow> nat \<Rightarrow> string list \<Rightarrow> rat list" where
  "col_scores ext df idx1 idx2 cols =
     map (\<lambda>col. fuzz_ratio ext (norm_val ext (cell_at df idx1 col))
                   (norm_val ext (cell_at df idx2 col)))
       (filter (\<lambda>col. col \<in> set (columns df)
                  \<and> norm_val ext (cell_at df idx1 col) \<noteq> []
                  \<and> norm_val ext (cell_at df idx2 col) \<noteq> []
                  \<and> norm_val ext (cell_at df idx1 col) \<noteq> norm_val ext (cell_at df idx2 col))
          cols)"

definition mean :: "rat list \<Rightarrow> rat" where
  "mean xs = (if xs = [] then 0 else sum_list xs / of_nat (length xs))"









section \<open>Example tables\<close>

definition column_of :: "'n cell list \<Rightarrow> nat \<Rightarrow> 'n cell" where
  "column_of xs i = (if i < length xs then xs ! i else NaN)"

definition ex_ext :: "nat externals" where
  "ex_ext = \<lparr>num_str = decimal, fuzz_ratio = (\<lambda>a b. 90), key_le = (\<lambda>a b. True),
             read_csv = (\<lambda>p n. Inl FileNotFoundError)\<rparr>"

definition ex_cities :: "nat dataframe" where
  "ex_cities =
     \<lparr>nrows = 5, columns = [''sku'', ''city''], dtype_of = (\<lambda>c. ObjectD),
      cell_at = (\<lambda>i c.
        if c = ''sku'' then column_of [Str ''A1'', Str ''A1'', Str ''B2'', NaN, NaN] i
        else if c = ''city''
        then column_of [Str ''New York'', Str ''new yorc'', Str ''Newark NJ'', NaN, Str ''LA''] i
        else NaN)\<rparr>"

definition ex_orders :: "nat dataframe" where
  "ex_orders =
     \<lparr>nrows = 4,
      columns = [''sku'', ''customer_name'', ''address'', ''city'', ''amount''],
      dtype_of = (\<lambda>c. if c = ''amount'' then NumericD else ObjectD),
      cell_at = (\<lambda>i c.
        if c = ''sku'' then column_of [Str ''A1'', Str ''A1'', Str ''B2'', Str ''C3''] i
        else if c = ''customer_name''
        then column_of [Str ''Ann'', Str ''Ann'', Str ''Bob'', Str ''Bob''] i
        else if c = ''address''
        then column_of [Str ''12 Long Street'', Str ''12 Long Street'',
                        Str ''12 Long Street'', Str ''12 Long Street''] i
        else if c = ''city'' then column_of [Str ''NY'', Str ''NY'', Str ''LA'', Str ''LA''] i
        else if c = ''amount'' then column_of [Num 10, Num 20, Num 10, NaN] i
        else NaN)\<rparr>"

definition ex_notes :: "nat dataframe" where
  "ex_notes =
     \<lparr>nrows = 2, columns = [''sku'', ''notes''], dtype_of = (\<lambda>c. ObjectD),
      cell_at = (\<lambda>i c. if c = ''sku'' then column_of [Str ''A1'', Str ''B2''] i else NaN)\<rparr>"



definition ex_dups :: "nat dataframe" where
  "ex_dups =
     \<lparr>nrows = 5, columns = [''sku'', ''city''], dtype_of = (\<lambda>c. ObjectD),
      cell_at = (\<lambda>i c.
        if c = ''sku'' then column_of [Str ''A1'', Str ''A1'', Str ''B2'', Str ''C3'', Str ''D4''] i
        else if c = ''city''
        then column_of [Str ''Boston'', Str ''Bostom'', Str ''Boston'', Str ''Boston'',
                        Str ''Boston''] i
        else NaN)\<rparr>"

definition ex_dups_types :: "string col_types" where
  "ex_dups_types =
     \<lparr>exact = [''sku''], names = [], text_cols = [], strings = [''city''], numbers = []\<rparr>"


section \<open>Blocking assigns every row to one block\<close>












section \<open>Oversized blocks\<close>

lemma blocks_loop_append:
  "blocks_loop ext df cols th tier mx (bs1 @ bs2) ms =
     (case blocks_loop ext df cols th tier mx bs1 ms of
        Inl e \<Rightarrow> Inl e
      | Inr ms' \<Rightarrow> blocks_loop ext df cols th tier mx bs2 ms')"
  by (induction bs1 arbitrary: ms) (auto split: sum.splits)

lemma replicate_numeral_eval: "replicate (numeral k) x = x # replicate (pred_numeral k) x"
  by (simp add: numeral_eq_Suc)

lemmas eval_strings =
  py_str_def isna_def lower_def lower_char_def is_space_def strip_def split_def norm_val_def
  column_of_def digit_char_def rec_id_def replicate_numeral_eval

text \<open>
  Claim C7.  A block with more rows than the maximum block size contributes no candidate
  pair: the result of the tier, errors included, is the result of the loop over the
  dictionary without that block, whatever the similarity of the rows inside it.
\<close>

theorem oversized_block_skipped:
  assumes "block_col \<in> set (columns df)"
    and "build_blocks ext df block_col = bs1 @ (key, indices) # bs2"
    and "length indices > max_block_size"
  shows "fuzzy_match_strategy ext df (block_col # cols) threshold tier max_block_size =
           blocks_loop ext df (block_col # cols) threshold tier max_block_size (bs1 @ bs2) []"
  using assms by (simp add: fuzzy_match_strategy_def blocks_loop_append split: sum.splits)

theorem oversized_block_skipped_witness:
  "''city'' \<in> set (columns (add_record_ids ex_cities)) \<and>
   build_blocks ex_ext (add_record_ids ex_cities) ''city'' =
     [] @ (''new'', [0, 1, 2]) # [(''unknown'', [3, 4])] \<and>
   length [0, 1, 2 :: nat] > 2 \<and>
   fuzzy_match_strategy ex_ext (add_record_ids ex_cities) [''city''] 85 LOW 2 =
     Inr [\<lparr>record_id_l = Str ''REC_000003'', record_id_r = Str ''REC_000004'',
           match_score = 9 / 10, match_tier = LOW\<rparr>]"
proof -
  let ?df = "add_record_ids ex_cities"
  have c: "''city'' \<in> set (columns ?df)"
    by (simp add: add_record_ids_def ex_cities_def)
  have b: "build_blocks ex_ext ?df ''city'' = [] @ (''new'', [0, 1, 2]) # [(''unknown'', [3, 4])]"
    by (simp add: build_blocks_def block_key_def add_record_ids_def ex_cities_def ex_ext_def
          eval_strings upt_rec)
  have l: "length [0, 1, 2 :: nat] > 2"
    by simp
  have r: "blocks_loop ex_ext ?df [''city''] 85 LOW 2 ([] @ [(''unknown'', [3, 4])]) [] =
     Inr [\<lparr>record_id_l = Str ''REC_000003'', record_id_r = Str ''REC_000004'',
           match_score = 9 / 10, match_tier = LOW\<rparr>]"
    by (simp add: calculate_fuzzy_score_def record_id_at_def add_record_ids_def ex_cities_def
          ex_ext_def eval_strings)
  show ?thesis
    using c b l r oversized_block_skipped [OF c b l, of "[]" 85 LOW] by simp
qed

section \<open>The fuzzy score\<close>

lemma score_loop_scores:
  "idx1 < nrows df \<Longrightarrow> idx2 < nrows df \<Longrightarrow>
   score_loop ext df idx1 idx2 cols (t, n) =
     Inr (t + sum_list (col_scores ext df idx1 idx2 cols),
          n + length (col_scores ext df idx1 idx2 cols))"
  by (induction cols arbitrary: t n) (simp_all add: col_scores_def Let_def add.assoc)

lemma calculate_fuzzy_score_mean:
  "idx1 < nrows df \<Longrightarrow> idx2 < nrows df \<Longrightarrow>
   calculate_fuzzy_score ext df idx1 idx2 cols = Inr (mean (col_scores ext df idx1 idx2 cols))"
  by (simp add: calculate_fuzzy_score_def score_loop_scores mean_def)

lemma col_scores_append:
  "col_scores ext df i j (xs @ ys) = col_scores ext df i j xs @ col_scores ext df i j ys"
  by (simp add: col_scores_def)

lemma norm_val_NaN: "norm_val ext NaN = ''nan''"
  by (simp add: norm_val_def py_str_def lower_def lower_char_def strip_def is_space_def)



text \<open>
  Claim C9.  A missing value is compared as the text \<^verbatim>\<open>nan\<close>.  When one row's value in
  a compared column of the table is missing and the other row's normalised value is not
  empty and is not \<^verbatim>\<open>nan\<close>, the column is not skipped: the similarity between
  \<^verbatim>\<open>nan\<close> and the other value is one of the scores that are averaged, whichever of the
  two rows is the one with the missing value.
\<close>

theorem missing_value_scored_as_nan:
  assumes "idx1 < nrows df" and "idx2 < nrows df" and "col \<in> set (columns df)"
    and "cell_at df idx1 col = NaN"
    and "norm_val ext (cell_at df idx2 col) \<noteq> []"
    and "norm_val ext (cell_at df idx2 col) \<noteq> ''nan''"
  shows "calculate_fuzzy_score ext df idx1 idx2 (pre @ col # post) =
           Inr (mean (col_scores ext df idx1 idx2 pre
                       @ fuzz_ratio ext ''nan'' (norm_val ext (cell_at df idx2 col))
                       # col_scores ext df idx1 idx2 post))
      \<and> calculate_fuzzy_score ext df idx2 idx1 (pre @ col # post) =
           Inr (mean (col_scores ext df idx2 idx1 pre
                       @ fuzz_ratio ext (norm_val ext (cell_at df idx2 col)) ''nan''
                       # col_scores ext df idx2 idx1 post))"
proof -
  have "col_scores ext df idx1 idx2 [col] =
          [fuzz_ratio ext ''nan'' (norm_val ext (cell_at df idx2 col))]"
    using assms by (auto simp: col_scores_def norm_val_NaN)
  moreover have "col_scores ext df idx2 idx1 [col] =
          [fuzz_ratio ext (norm_val ext (cell_at df idx2 col)) ''nan'']"
    using assms by (auto simp: col_scores_def norm_val_NaN)
  ultimately show ?thesis
    using assms(1,2)
      col_scores_append [of ext df idx1 idx2 pre "[col] @ post"]
      col_scores_append [of ext df idx1 idx2 "[col]" post]
      col_scores_append [of ext df idx2 idx1 pre "[col] @ post"]
      col_scores_append [of ext df idx2 idx1 "[col]" post]
    by (simp add: calculate_fuzzy_score_mean)
qed

theorem missing_value_scored_as_nan_witness:
  "3 < nrows ex_cities \<and> 4 < nrows ex_cities \<and> ''city'' \<in> set (columns ex_cities) \<and>
   cell_at ex_cities 3 ''city'' = NaN \<and>
   norm_val ex_ext (cell_at ex_cities 4 ''city'') = ''la'' \<and>
   calculate_fuzzy_score ex_ext ex_cities 3 4 ([''sku''] @ ''city'' # []) =
     Inr (mean ([] @ fuzz_ratio ex_ext ''nan'' ''la'' # [])) \<and>
   calculate_fuzzy_score ex_ext ex_cities 4 3 ([''sku''] @ ''city'' # []) =
     Inr (mean ([] @ fuzz_ratio ex_ext ''la'' ''nan'' # []))"
proof -
  have n: "3 < nrows ex_cities" "4 < nrows ex_cities"
    and c: "''city'' \<in> set (columns ex_cities)"
    and m: "cell_at ex_cities 3 ''city'' = NaN"
    by (simp_all add: ex_cities_def column_of_def)
  have v: "norm_val ex_ext (cell_at ex_cities 4 ''city'') = ''la''"
    by (simp add: ex_cities_def ex_ext_def eval_strings)
  have e: "norm_val ex_ext (cell_at ex_cities 4 ''city'') \<noteq> []"
    "norm_val ex_ext (cell_at ex_cities 4 ''city'') \<noteq> ''nan''"
    by (simp_all add: v)
  have s: "col_scores ex_ext ex_cities 3 4 [''sku''] = []"
    "col_scores ex_ext ex_cities 4 3 [''sku''] = []"
    "col_scores ex_ext ex_cities 3 4 [] = []" "col_scores ex_ext ex_cities 4 3 [] = []"
    by (simp_all add: col_scores_def ex_cities_def ex_ext_def eval_strings)
  show ?thesis
    using n c m v s missing_value_scored_as_nan [OF n c m e, of "[''sku'']" "[]"] by simp
qed

section \<open>Column classification\<close>

lemma sample_of_empty_iff:
  "sample_of ext df c = [] \<longleftrightarrow> \<not> list_ex (\<lambda>i. \<not> isna (cell_at df i c)) [0..<nrows df]"
  by (auto simp: sample_of_def filter_empty_conv list_ex_iff)

lemma classify_step_error: "classify_step ext df ct c = Inl e \<Longrightarrow> e = ZeroDivisionError"
  by (simp add: classify_step_def Let_def split: if_splits)

lemma classify_step_empty_sample:
  "c \<noteq> ''record_id'' \<Longrightarrow> sample_of ext df c = [] \<Longrightarrow> classify_step ext df ct c = Inl ZeroDivisionError"
  by (simp add: classify_step_def)

lemma classify_step_cases:
  assumes "classify_step ext df ct c = Inr ct'"
  shows "ct' = ct \<and> (c = ''record_id'' \<or> dtype_of df c = OtherD)
    \<or> c \<noteq> ''record_id'' \<and> sample_of ext df c \<noteq> [] \<and>
       (ct' = ct\<lparr>exact := exact ct @ [c]\<rparr>
        \<or> ct' = ct\<lparr>names := names ct @ [c]\<rparr>
        \<or> ct' = ct\<lparr>text_cols := text_cols ct @ [c]\<rparr>
        \<or> (\<exists>r. ct' = ct\<lparr>strings := strings ct @ [(c, r)]\<rparr>))"
proof (cases "c = ''record_id''")
  case True
  then show ?thesis using assms by (simp add: classify_step_def)
next
  case False
  have ne: "sample_of ext df c \<noteq> []"
  proof
    assume "sample_of ext df c = []"
    then have "classify_step ext df ct c = Inl ZeroDivisionError"
      using False by (rule classify_step_empty_sample [rotated])
    with assms show False by simp
  qed
  show ?thesis
    using assms False ne
    by (cases "dtype_of df c") (auto simp: classify_step_def Let_def split: if_splits)
qed


lemma classify_step_elim:
  assumes "classify_step ext df ct c = Inr ct'"
  obtains (same) "ct' = ct" "c = ''record_id'' \<or> dtype_of df c = OtherD"
  | (to_exact) "c \<noteq> ''record_id''" "sample_of ext df c \<noteq> []"
      "ct' = ct\<lparr>exact := exact ct @ [c]\<rparr>"
  | (to_names) "c \<noteq> ''record_id''" "sample_of ext df c \<noteq> []"
      "ct' = ct\<lparr>names := names ct @ [c]\<rparr>"
  | (to_text) "c \<noteq> ''record_id''" "sample_of ext df c \<noteq> []"
      "ct' = ct\<lparr>text_cols := text_cols ct @ [c]\<rparr>"
  | (to_strings) r where "c \<noteq> ''record_id''" "sample_of ext df c \<noteq> []"
      "ct' = ct\<lparr>strings := strings ct @ [(c, r)]\<rparr>"
  using classify_step_cases [OF assms] by blast

lemma classify_step_numbers:
  assumes "classify_step ext df ct c = Inr ct'"
  shows "numbers ct' = numbers ct"
  using assms by (cases rule: classify_step_elim) simp_all





lemma classify_loop_empty_sample:
  "c \<in> set cols \<Longrightarrow> c \<noteq> ''record_id'' \<Longrightarrow> sample_of ext df c = [] \<Longrightarrow>
   classify_loop ext df cols ct = Inl ZeroDivisionError"
proof (induction cols arbitrary: ct)
  case Nil
  then show ?case by simp
next
  case (Cons a cols)
  show ?case
  proof (cases "classify_step ext df ct a")
    case (Inl e)
    then show ?thesis using classify_step_error [OF Inl] by simp
  next
    case (Inr ct')
    then have "a \<noteq> c"
      using Cons.prems classify_step_empty_sample [of c ext df ct] by auto
    then show ?thesis using Inr Cons by simp
  qed
qed

lemma classify_loop_numbers:
  "classify_loop ext df cols ct = Inr ct' \<Longrightarrow> numbers ct' = numbers ct"
proof (induction cols arbitrary: ct)
  case Nil
  then show ?case by simp
next
  case (Cons a cols)
  from Cons.prems obtain ct1 where s: "classify_step ext df ct a = Inr ct1"
    and l: "classify_loop ext df cols ct1 = Inr ct'"
    by (auto split: sum.splits)
  show ?case
    using Cons.IH [OF l] classify_step_numbers [OF s] by simp
qed







lemmas eval_classify =
  classify_columns_def classify_step_def sample_of_def exact_keywords_def name_keywords_def
  Let_def upt_rec

lemma ex_orders_classified:
  "classify_columns ex_ext ex_orders =
     Inr \<lparr>exact = [''sku'', ''amount''], names = [''customer_name''], text_cols = [''address''],
          strings = [''city''], numbers = []\<rparr>"
  by (simp add: eval_classify ex_orders_def ex_ext_def eval_strings)


lemma ex_notes_classified:
  "classify_columns ex_ext ex_notes = Inl ZeroDivisionError"
  by (simp add: eval_classify ex_notes_def ex_ext_def eval_strings)


text \<open>
  Claim C10.  The \<^verbatim>\<open>numbers\<close> list that the classifier returns is empty for every
  table: a column of numeric dtype is taken by the first rule, so the last branch is
  never reached.
\<close>

theorem numbers_always_empty:
  assumes "classify_columns ext df = Inr ct"
  shows "numbers ct = []"
proof -
  from assms obtain ct0
    where l: "classify_loop ext df (columns df)
                \<lparr>exact = [], names = [], text_cols = [], strings = [], numbers = []\<rparr> = Inr ct0"
      and n: "numbers ct = numbers ct0"
    by (auto simp: classify_columns_def split: sum.splits)
  show ?thesis
    using classify_loop_numbers [OF l] n by simp
qed

theorem numbers_always_empty_witness:
  "dtype_of ex_orders ''amount'' = NumericD \<and>
   classify_columns ex_ext ex_orders =
     Inr \<lparr>exact = [''sku'', ''amount''], names = [''customer_name''], text_cols = [''address''],
          strings = [''city''], numbers = []\<rparr> \<and>
   numbers \<lparr>exact = [''sku'', ''amount''], names = [''customer_name''], text_cols = [''address''],
            strings = [''city''], numbers = []\<rparr> = []"
  using numbers_always_empty [OF ex_orders_classified] ex_orders_classified
  by (simp add: ex_orders_def)

text \<open>
  Claim C2 (the code departs from it).  A column other than the identifier column whose
  values are all missing is not skipped: the division \<^verbatim>\<open>sample.nunique() / len(sample)\<close>
  raises ZeroDivisionError and the classification of the whole table fails.
\<close>

theorem all_missing_column_raises:
  assumes "col \<in> set (columns df)" and "col \<noteq> ''record_id''"
    and "\<forall>i < nrows df. cell_at df i col = NaN"
  shows "classify_columns ext df = Inl ZeroDivisionError"
proof -
  have "sample_of ext df col = []"
    using assms(3) by (simp add: sample_of_empty_iff list_ex_iff isna_def)
  then show ?thesis
    using assms(1,2) by (simp add: classify_columns_def classify_loop_empty_sample)
qed

theorem all_missing_column_raises_witness:
  "''notes'' \<in> set (columns ex_notes) \<and> ''notes'' \<noteq> ''record_id'' \<and>
   nrows ex_notes = 2 \<and>
   cell_at ex_notes 0 ''notes'' = NaN \<and> cell_at ex_notes 1 ''notes'' = NaN \<and>
   classify_columns ex_ext ex_notes = Inl ZeroDivisionError"
proof -
  have c: "''notes'' \<in> set (columns ex_notes)" and r: "''notes'' \<noteq> ''record_id''"
    and m: "\<forall>i < nrows ex_notes. cell_at ex_notes i ''notes'' = NaN"
    by (simp_all add: ex_notes_def)
  show ?thesis
    using c r all_missing_column_raises [OF c r m, of ex_ext] by (simp add: ex_notes_def)
qed




section \<open>The driver\<close>

lemma fallback_summary:
  assumes "(case read_csv ext data_path None of
              Inl e \<Rightarrow> Inl e
            | Inr df \<Rightarrow> universal_deduplication ext df) = Inl e"
    and "read_csv ext data_path (Some 1000) = Inr df"
  shows "run_dynamic_dedup ext data_path =
           Inr \<lparr>duplicate_pairs = 0, input_records = nrows df, detection_rate = 0,
                tiers = (\<lambda>t. 0), col_types = None\<rparr>"
  using assms by (simp add: run_dynamic_dedup_def)

text \<open>
  Claim C1 (the code departs from it).  When the file cannot be read, the second
  \<^verbatim>\<open>read_csv\<close>, in the handler, fails as the first did, nothing catches it, and the driver
  hands the failure to its caller instead of returning the zero summary.
\<close>

theorem unreadable_file_propagates:
  assumes "read_csv ext data_path None = Inl e"
    and "read_csv ext data_path (Some 1000) = Inl e'"
  shows "run_dynamic_dedup ext data_path = Inl e'"
  using assms by (simp add: run_dynamic_dedup_def)

theorem unreadable_file_propagates_witness:
  "read_csv ex_ext ''missing.csv'' None = Inl FileNotFoundError \<and>
   read_csv ex_ext ''missing.csv'' (Some 1000) = Inl FileNotFoundError \<and>
   run_dynamic_dedup ex_ext ''missing.csv'' = Inl FileNotFoundError"
proof -
  have a: "read_csv ex_ext ''missing.csv'' None = Inl FileNotFoundError"
    and b: "read_csv ex_ext ''missing.csv'' (Some 1000) = Inl FileNotFoundError"
    by (simp_all add: ex_ext_def)
  show ?thesis
    using a b unreadable_file_propagates [OF a b] by simp
qed

section \<open>Exact matching\<close>




lemma all_pairs_subset: "(a, b) \<in> set (all_pairs xs) \<Longrightarrow> a \<in> set xs \<and> b \<in> set xs"
  by (induction xs) auto

lemma distinct_all_pairs: "distinct xs \<Longrightarrow> distinct (all_pairs xs)"
proof (induction xs)
  case Nil
  then show ?case by simp
next
  case (Cons x xs)
  have "distinct (map (Pair x) xs)"
    using Cons.prems by (simp add: distinct_map inj_on_def)
  moreover have "set (map (Pair x) xs) \<inter> set (all_pairs xs) = {}"
    using Cons.prems all_pairs_subset [of x _ xs] by auto
  ultimately show ?case using Cons by simp
qed












lemma groups_loop_empty: "groups_loop df col dups [] ms = Inr ms"
  by simp












section \<open>The final table of matches\<close>





























lemma ex_dups_classified:
  "classify_columns ex_ext (add_record_ids ex_dups) = Inr ex_dups_types"
  by (simp add: eval_classify ex_dups_def ex_dups_types_def ex_ext_def add_record_ids_def
        eval_strings)






end
